theory Spec2Isabelle
  imports Main
begin

section \<open>Data model (the repository's shared type declarations)\<close>

text \<open>
  The run-time values of the string unions \<^verbatim>\<open>'idle' | 'onboard' | 'offboard'\<close>.
  A pilgrim's \<^verbatim>\<open>status\<close> is declared as \<^verbatim>\<open>'onboard' | 'offboard'\<close> and the store's
  \<^verbatim>\<open>scanningMode\<close> as all three; the store casts one to the other
  (\<^verbatim>\<open>scanningMode as 'onboard' | 'offboard'\<close>), which is no check at run time, so one
  datatype carries both.
\<close>

datatype StatusVal = Idle | Onboard | Offboard

text \<open>
  \<^verbatim>\<open>interface Pilgrim\<close>. The field \<^verbatim>\<open>id\<close> is named \<open>pid\<close> here; the remaining
  descriptive fields (passport number, seat, phone, photo, dates, sex, nationality) are never
  read by the scan workflow and are left out.
\<close>

record Pilgrim =
  pid :: string
  full_name :: string
  nfc_card_id :: string
  status :: StatusVal

text \<open>\<^verbatim>\<open>interface NFCScanResult\<close>; its \<^verbatim>\<open>error\<close> field is \<open>scanError\<close> here.\<close>

record NFCScanResult =
  success :: bool
  cardId :: "string option"
  scanError :: "string option"
  timestamp :: nat

text \<open>\<^verbatim>\<open>interface NFCManager\<close> (the store's \<^verbatim>\<open>nfc\<close> slice).\<close>

record NFCManager =
  isEnabled :: bool
  isScanning :: bool
  lastScanResult :: "NFCScanResult option"

text \<open>
  \<^verbatim>\<open>interface SessionStats\<close>. The counters are JavaScript numbers that only ever grow by
  \<^verbatim>\<open>++\<close> from zero; they are natural numbers here (a session stays far below \<open>2^53\<close>).
\<close>

record SessionStats =
  totalScanned :: nat
  successfulScans :: nat
  failedScans :: nat
  onboardCount :: nat
  offboardCount :: nat
  startTime :: "nat option"
  endTime :: "nat option"

text \<open>\<^verbatim>\<open>interface AppState\<close>.\<close>

record AppState =
  pilgrims :: "Pilgrim list"
  isLoading :: bool
  error :: "string option"
  nfc :: NFCManager
  selectedPilgrim :: "Pilgrim option"
  scanningMode :: StatusVal
  sessionStats :: SessionStats

text \<open>\<^verbatim>\<open>const initialState: AppState\<close> of the store.\<close>

definition initialState :: AppState where
  "initialState =
     \<lparr> pilgrims = [],
       isLoading = False,
       error = None,
       nfc = \<lparr> isEnabled = False, isScanning = False, lastScanResult = None \<rparr>,
       selectedPilgrim = None,
       scanningMode = Idle,
       sessionStats =
         \<lparr> totalScanned = 0, successfulScans = 0, failedScans = 0,
           onboardCount = 0, offboardCount = 0, startTime = None, endTime = None \<rparr> \<rparr>"

section \<open>Thrown values\<close>

text \<open>
  What the store's own \<^verbatim>\<open>catch\<close> blocks can receive: an \<^verbatim>\<open>Error\<close> built with
  \<^verbatim>\<open>new Error(message)\<close>, or the plain object \<^verbatim>\<open>{code, message, data}\<close> that the
  Record Store service's \<^verbatim>\<open>handleError\<close> returns. Both carry \<^verbatim>\<open>.message\<close>.
\<close>

datatype Thrown = JsError string | PbError nat string

fun thrown_message :: "Thrown \<Rightarrow> string" where
  "thrown_message (JsError m) = m"
| "thrown_message (PbError c m) = m"

text \<open>JavaScript's \<^verbatim>\<open>a || b\<close> on strings: the empty string is falsy.\<close>

definition orElse :: "string \<Rightarrow> string \<Rightarrow> string" where
  "orElse a b = (if a = [] then b else a)"

text \<open>
  A value thrown by the NFC library is of type \<^verbatim>\<open>any\<close>; the adapter reads only
  \<^verbatim>\<open>error?.message\<close> and \<^verbatim>\<open>error?.toString()\<close> from it (each possibly undefined).
\<close>

datatype AnyThrown = AnyThrown (any_message: "string option") (any_toString: "string option")

text \<open>\<^verbatim>\<open>new Error(m)\<close> seen through those two reads.\<close>

definition newError :: "string \<Rightarrow> AnyThrown" where
  "newError m = AnyThrown (Some m) (Some (if m = [] then ''Error'' else ''Error: '' @ m))"

section \<open>The external collaborators\<close>

text \<open>
  Every call that leaves the application is appended to a trace; a lookup is traced with the
  filter text it sends.
\<close>

datatype Call =
    NfcIsSupported
  | NfcStart
  | NfcIsEnabled
  | NfcRequestTechnology
  | NfcGetTag
  | NfcCancelTechnologyRequest
  | PbGetFirstListItem string
  | PbUpdate string StatusVal

fun isRecordStoreCall :: "Call \<Rightarrow> bool" where
  "isRecordStoreCall (PbGetFirstListItem c) = True"
| "isRecordStoreCall (PbUpdate i s) = True"
| "isRecordStoreCall c = False"

fun isPersistCall :: "Call \<Rightarrow> bool" where
  "isPersistCall (PbUpdate i s) = True"
| "isPersistCall c = False"

text \<open>
  An error raised by the PocketBase client: \<^verbatim>\<open>status\<close> is the HTTP status (absent or 0
  when the request never reached the server), \<^verbatim>\<open>message\<close> may be absent.
\<close>

datatype SdkErr = SdkErr (err_status: "nat option") (err_message: "string option")

definition notFound404 :: SdkErr where
  "notFound404 = SdkErr (Some 404) (Some ''The requested resource was not found.'')"

text \<open>
  The filter text of a lookup by card identifier, as the service builds it:
  \<^verbatim>\<open>nfc_card_id="${nfcCardId}"\<close>, the identifier interpolated as it is, without
  escaping. \<open>CHR 0x22\<close> is the double quote.
\<close>

definition cardFilter :: "string \<Rightarrow> string" where
  "cardFilter nfcCardId = ''nfc_card_id='' @ [CHR 0x22] @ nfcCardId @ [CHR 0x22]"

text \<open>
  Modelled from the spec: how the Record Store reads a filter text. A text of the form
  \<^verbatim>\<open>nfc_card_id="c"\<close>, where \<open>c\<close> holds neither a double quote nor a backslash
  (\<open>CHR 0x5C\<close>), is the comparison of the card identifier with \<open>c\<close>. Any other text is
  no such comparison: an identifier with a quote in it ends the string literal early and the
  rest is read as filter syntax.
\<close>

definition plainCardFilter :: "string \<Rightarrow> string option" where
  "plainCardFilter flt =
     (let pre = ''nfc_card_id='' @ [CHR 0x22];
          body = drop (length pre) flt
      in if take (length pre) flt = pre \<and> body \<noteq> [] \<and> last body = CHR 0x22
            \<and> CHR 0x22 \<notin> set (butlast body) \<and> CHR 0x5C \<notin> set (butlast body)
         then Some (butlast body) else None)"

text \<open>
  Modelled from the spec: the Record Store collaborator (the PocketBase client and its server,
  which are not part of the repository). \<open>findByCardId(id) -> Pilgrim | NotFound\<close>:
  a transport or server fault \<open>f\<close> when one strikes this request; for the comparison with
  \<open>c\<close> the first record whose card identifier is \<open>c\<close>, the 404 error when there is none;
  for any other filter text the answer \<open>other\<close>, which the repository does not determine
  and the environment supplies.
\<close>

definition sdk_getFirstListItem ::
  "SdkErr option \<Rightarrow> SdkErr + Pilgrim \<Rightarrow> Pilgrim list \<Rightarrow> string \<Rightarrow> SdkErr + Pilgrim" where
  "sdk_getFirstListItem f other db flt =
     (case f of
        Some e \<Rightarrow> Inl e
      | None \<Rightarrow>
          (case plainCardFilter flt of
             None \<Rightarrow> other
           | Some c \<Rightarrow>
               (case find (\<lambda>p. nfc_card_id p = c) db of
                  None \<Rightarrow> Inl notFound404
                | Some p \<Rightarrow> Inr p)))"

text \<open>
  Modelled from the spec: the Record Store collaborator,
  \<open>updateStatus(id, status) -> Pilgrim | Error\<close>: the record with that id gets the
  status and is returned; a fault leaves the collection as it was.
\<close>

definition sdk_update ::
  "SdkErr option \<Rightarrow> Pilgrim list \<Rightarrow> string \<Rightarrow> StatusVal \<Rightarrow> (SdkErr + Pilgrim) \<times> Pilgrim list" where
  "sdk_update f db i s =
     (case f of
        Some e \<Rightarrow> (Inl e, db)
      | None \<Rightarrow>
          (case find (\<lambda>p. pid p = i) db of
             None \<Rightarrow> (Inl notFound404, db)
           | Some p \<Rightarrow>
               (Inr (p\<lparr>status := s\<rparr>),
                map (\<lambda>q. if pid q = i then q\<lparr>status := s\<rparr> else q) db)))"

text \<open>
  What the NFC hardware and library answer during one scan: whether the module loaded at
  all, the answers of \<^verbatim>\<open>isSupported\<close>, \<^verbatim>\<open>start\<close>, \<^verbatim>\<open>isEnabled\<close>, the outcome of
  the race between \<^verbatim>\<open>requestTechnology\<close> and the adapter's timer, whether
  \<^verbatim>\<open>getTag\<close> throws, and the identifier the adapter's \<^verbatim>\<open>extractCardId\<close> derives
  from the tag (it catches every exception and returns null instead; the further
  \<^verbatim>\<open>getTag\<close> it may issue while reading NDEF data is not traced).
\<close>

datatype TechResp = Resolved bool | Rejected AnyThrown | TimerFired

record Hardware =
  nfcManagerPresent :: bool
  isSupported_r :: "AnyThrown + bool"
  start_r :: "AnyThrown option"
  isEnabled_r :: "AnyThrown + bool"
  requestTechnology_r :: TechResp
  getTag_r :: "AnyThrown option"
  extractCardId_r :: "string option"

text \<open>What the outside world contributes to one store action.\<close>

record Env =
  hw :: Hardware
  lookupFault :: "SdkErr option"
  oddFilterAnswer :: "SdkErr + Pilgrim"
  updateFault :: "SdkErr option"
  now :: nat

text \<open>
  The whole state: the store, the adapter's \<^verbatim>\<open>isInitialized\<close> flag, the remote
  collection, and the trace of outgoing calls.
\<close>

record World =
  app :: AppState
  isInitialized :: bool
  remote :: "Pilgrim list"
  calls :: "Call list"

section \<open>Record Store service (services/pocketbase)\<close>

text \<open>\<^verbatim>\<open>error?.message\<close> read as a string, undefined being falsy like the empty string.\<close>

definition sdk_message :: "SdkErr \<Rightarrow> string" where
  "sdk_message e = (case err_message e of None \<Rightarrow> [] | Some m \<Rightarrow> m)"

text \<open>\<^verbatim>\<open>handleError\<close>: a truthy status becomes the code, anything else is code 0.\<close>

definition handleError :: "SdkErr \<Rightarrow> Thrown" where
  "handleError e =
     (case err_status e of
        Some n \<Rightarrow>
          (if n \<noteq> 0 then PbError n (orElse (sdk_message e) ''An error occurred'')
           else PbError 0 (orElse (sdk_message e) ''Network error occurred''))
      | None \<Rightarrow> PbError 0 (orElse (sdk_message e) ''Network error occurred''))"

definition isNotFoundError :: "SdkErr \<Rightarrow> bool" where
  "isNotFoundError e = (err_status e = Some 404)"

definition logCall :: "Call \<Rightarrow> World \<Rightarrow> World" where
  "logCall c w = w\<lparr>calls := calls w @ [c]\<rparr>"

text \<open>
  \<^verbatim>\<open>getPilgrimByNfcId\<close>: the lookup with the interpolated filter; null on 404, the
  normalized error thrown otherwise. \<open>f\<close> and \<open>other\<close> are the environment's part in the
  client's answer.
\<close>

definition pb_getPilgrimByNfcId ::
  "SdkErr option \<Rightarrow> SdkErr + Pilgrim \<Rightarrow> string \<Rightarrow> World \<Rightarrow> (Thrown + Pilgrim option) \<times> World" where
  "pb_getPilgrimByNfcId f other nfcCardId w =
     (let flt = cardFilter nfcCardId;
          w1 = logCall (PbGetFirstListItem flt) w in
      case sdk_getFirstListItem f other (remote w) flt of
        Inr response \<Rightarrow> (Inr (Some response), w1)
      | Inl e \<Rightarrow>
          (if isNotFoundError e then (Inr None, w1)
           else (Inl (handleError e), w1)))"

text \<open>\<^verbatim>\<open>updatePilgrimStatus\<close> of the service: the persist operation.\<close>

definition pb_updatePilgrimStatus ::
  "SdkErr option \<Rightarrow> string \<Rightarrow> StatusVal \<Rightarrow> World \<Rightarrow> (Thrown + Pilgrim) \<times> World" where
  "pb_updatePilgrimStatus f i s w =
     (let w1 = logCall (PbUpdate i s) w in
      case sdk_update f (remote w) i s of
        (Inr pilgrim, db) \<Rightarrow> (Inr pilgrim, w1\<lparr>remote := db\<rparr>)
      | (Inl e, db) \<Rightarrow> (Inl (handleError e), w1\<lparr>remote := db\<rparr>))"

section \<open>Card Reader adapter (services/nfc)\<close>

fun startsWith :: "string \<Rightarrow> string \<Rightarrow> bool" where
  "startsWith s [] = True"
| "startsWith [] (c # cs) = False"
| "startsWith (x # xs) (c # cs) = (x = c \<and> startsWith xs cs)"

text \<open>\<^verbatim>\<open>String.prototype.includes\<close>: \<open>str_includes s sub\<close> is \<^verbatim>\<open>s.includes(sub)\<close>.\<close>

fun str_includes :: "string \<Rightarrow> string \<Rightarrow> bool" where
  "str_includes [] sub = (sub = [])"
| "str_includes (x # xs) sub = (startsWith (x # xs) sub \<or> str_includes xs sub)"

text \<open>\<^verbatim>\<open>error?.message || error?.toString() || ''\<close>.\<close>

definition errorMessage :: "AnyThrown \<Rightarrow> string" where
  "errorMessage e =
     orElse (case any_message e of None \<Rightarrow> [] | Some m \<Rightarrow> m)
       (orElse (case any_toString e of None \<Rightarrow> [] | Some s \<Rightarrow> s) [])"

definition mapErrorToMessage :: "AnyThrown \<Rightarrow> string" where
  "mapErrorToMessage e =
     (let m = errorMessage e in
      if str_includes m ''NFC_NOT_SUPPORTED'' then ''NFC_NOT_SUPPORTED''
      else if str_includes m ''NFC_DISABLED'' then ''NFC_DISABLED''
      else if str_includes m ''SCAN_TIMEOUT'' then ''SCAN_TIMEOUT''
      else if str_includes m ''INVALID_CARD'' then ''INVALID_CARD''
      else if str_includes m ''cancelled'' \<or> str_includes m ''canceled'' then ''SCAN_TIMEOUT''
      else ''UNKNOWN_ERROR'')"

text \<open>
  \<^verbatim>\<open>initialize\<close>: every failure is caught and answered with false (the handler only logs).
\<close>

definition nfc_initialize :: "Hardware \<Rightarrow> World \<Rightarrow> bool \<times> World" where
  "nfc_initialize h w =
     (if \<not> nfcManagerPresent h then (False, w)
      else
        (let w1 = logCall NfcIsSupported w in
         case isSupported_r h of
           Inl e \<Rightarrow> (False, w1)
         | Inr supported \<Rightarrow>
             (if \<not> supported then (False, w1)
              else
                (let w2 = logCall NfcStart w1 in
                 case start_r h of
                   Some e \<Rightarrow> (False, w2)
                 | None \<Rightarrow> (True, w2\<lparr>isInitialized := True\<rparr>)))))"

definition nfc_isEnabled :: "Hardware \<Rightarrow> World \<Rightarrow> bool \<times> World" where
  "nfc_isEnabled h w =
     (if \<not> nfcManagerPresent h then (False, w)
      else
        (let w1 = (if \<not> isInitialized w then snd (nfc_initialize h w) else w);
             w2 = logCall NfcIsEnabled w1 in
         case isEnabled_r h of
           Inl e \<Rightarrow> (False, w2)
         | Inr b \<Rightarrow> (b, w2)))"

text \<open>\<^verbatim>\<open>stopScanning\<close> of the adapter: the cancel operation; it never throws.\<close>

definition nfc_stopScanning :: "Hardware \<Rightarrow> World \<Rightarrow> World" where
  "nfc_stopScanning h w =
     (if \<not> nfcManagerPresent h then w
      else logCall NfcCancelTechnologyRequest w)"

text \<open>
  The \<^verbatim>\<open>try\<close> block of the adapter's \<^verbatim>\<open>startScanning\<close>: the card identifier, or
  the value that reaches its \<^verbatim>\<open>catch\<close>.
\<close>

definition scanAttempt :: "Hardware \<Rightarrow> World \<Rightarrow> (AnyThrown + string) \<times> World" where
  "scanAttempt h w =
     (if \<not> nfcManagerPresent h then (Inl (newError ''NFC_NOT_AVAILABLE_IN_EXPO_GO''), w)
      else
        (let (initialized, w1) = (if \<not> isInitialized w then nfc_initialize h w else (True, w)) in
         if \<not> initialized then (Inl (newError ''NFC_NOT_SUPPORTED''), w1)
         else
           (let (enabled, w2) = nfc_isEnabled h w1 in
            if \<not> enabled then (Inl (newError ''NFC_DISABLED''), w2)
            else
              (let w3 = logCall NfcRequestTechnology w2 in
               case requestTechnology_r h of
                 Rejected e \<Rightarrow> (Inl e, w3)
               | TimerFired \<Rightarrow> (Inl (newError ''SCAN_TIMEOUT''), w3)
               | Resolved tag \<Rightarrow>
                   (if \<not> tag then (Inl (newError ''SCAN_TIMEOUT''), w3)
                    else
                      (let w4 = logCall NfcGetTag w3 in
                       case getTag_r h of
                         Some e \<Rightarrow> (Inl e, w4)
                       | None \<Rightarrow>
                           (case extractCardId_r h of
                              None \<Rightarrow> (Inl (newError ''INVALID_CARD''), w4)
                            | Some c \<Rightarrow>
                                (if c = [] then (Inl (newError ''INVALID_CARD''), w4)
                                 else (Inr c, w4)))))))))"

text \<open>
  The adapter's \<^verbatim>\<open>startScanning\<close>: the attempt, its result or the mapped error kind,
  and the clean-up of the \<^verbatim>\<open>finally\<close> block. \<open>t\<close> is \<^verbatim>\<open>Date.now()\<close>.
\<close>

definition nfc_startScanning :: "Hardware \<Rightarrow> nat \<Rightarrow> World \<Rightarrow> NFCScanResult \<times> World" where
  "nfc_startScanning h t w =
     (let (r, w1) = scanAttempt h w;
          res = (case r of
                   Inr c \<Rightarrow> \<lparr> success = True, cardId = Some c, scanError = None, timestamp = t \<rparr>
                 | Inl e \<Rightarrow>
                     \<lparr> success = False, cardId = None,
                       scanError = Some (mapErrorToMessage e), timestamp = t \<rparr>)
      in (res, nfc_stopScanning h w1))"

section \<open>Localized messages (UTF-8 bytes of the Arabic literals)\<close>

definition AR_PILGRIM_NOT_FOUND :: string where
  "AR_PILGRIM_NOT_FOUND =
    [CHR 0xD9, CHR 0x84, CHR 0xD9, CHR 0x85, CHR 0x20, CHR 0xD9, CHR 0x8A, CHR 0xD8,
     CHR 0xAA, CHR 0xD9, CHR 0x85, CHR 0x20, CHR 0xD8, CHR 0xA7, CHR 0xD9, CHR 0x84,
     CHR 0xD8, CHR 0xB9, CHR 0xD8, CHR 0xAB, CHR 0xD9, CHR 0x88, CHR 0xD8, CHR 0xB1,
     CHR 0x20, CHR 0xD8, CHR 0xB9, CHR 0xD9, CHR 0x84, CHR 0xD9, CHR 0x89, CHR 0x20,
     CHR 0xD8, CHR 0xA7, CHR 0xD9, CHR 0x84, CHR 0xD8, CHR 0xAD, CHR 0xD8, CHR 0xA7,
     CHR 0xD8, CHR 0xAC]"

definition AR_ALREADY_ONBOARD :: string where
  "AR_ALREADY_ONBOARD =
    [CHR 0xD8, CHR 0xA7, CHR 0xD9, CHR 0x84, CHR 0xD8, CHR 0xAD, CHR 0xD8, CHR 0xA7,
     CHR 0xD8, CHR 0xAC, CHR 0x20, CHR 0xD8, CHR 0xB9, CHR 0xD9, CHR 0x84, CHR 0xD9,
     CHR 0x89, CHR 0x20, CHR 0xD9, CHR 0x85, CHR 0xD8, CHR 0xAA, CHR 0xD9, CHR 0x86,
     CHR 0x20, CHR 0xD8, CHR 0xA7, CHR 0xD9, CHR 0x84, CHR 0xD8, CHR 0xAD, CHR 0xD8,
     CHR 0xA7, CHR 0xD9, CHR 0x81, CHR 0xD9, CHR 0x84, CHR 0xD8, CHR 0xA9, CHR 0x20,
     CHR 0xD8, CHR 0xA8, CHR 0xD8, CHR 0xA7, CHR 0xD9, CHR 0x84, CHR 0xD9, CHR 0x81,
     CHR 0xD8, CHR 0xB9, CHR 0xD9, CHR 0x84]"

definition AR_ALREADY_OFFBOARD :: string where
  "AR_ALREADY_OFFBOARD =
    [CHR 0xD8, CHR 0xA7, CHR 0xD9, CHR 0x84, CHR 0xD8, CHR 0xAD, CHR 0xD8, CHR 0xA7,
     CHR 0xD8, CHR 0xAC, CHR 0x20, CHR 0xD8, CHR 0xAE, CHR 0xD8, CHR 0xA7, CHR 0xD8,
     CHR 0xB1, CHR 0xD8, CHR 0xAC, CHR 0x20, CHR 0xD8, CHR 0xA7, CHR 0xD9, CHR 0x84,
     CHR 0xD8, CHR 0xAD, CHR 0xD8, CHR 0xA7, CHR 0xD9, CHR 0x81, CHR 0xD9, CHR 0x84,
     CHR 0xD8, CHR 0xA9, CHR 0x20, CHR 0xD8, CHR 0xA8, CHR 0xD8, CHR 0xA7, CHR 0xD9,
     CHR 0x84, CHR 0xD9, CHR 0x81, CHR 0xD8, CHR 0xB9, CHR 0xD9, CHR 0x84]"

definition AR_NFC_NOT_SUPPORTED :: string where
  "AR_NFC_NOT_SUPPORTED =
    [CHR 0xD8, CHR 0xA7, CHR 0xD9, CHR 0x84, CHR 0xD8, CHR 0xAC, CHR 0xD9, CHR 0x87,
     CHR 0xD8, CHR 0xA7, CHR 0xD8, CHR 0xB2, CHR 0x20, CHR 0xD9, CHR 0x84, CHR 0xD8,
     CHR 0xA7, CHR 0x20, CHR 0xD9, CHR 0x8A, CHR 0xD8, CHR 0xAF, CHR 0xD8, CHR 0xB9,
     CHR 0xD9, CHR 0x85, CHR 0x20, CHR 0x4E, CHR 0x46, CHR 0x43]"

definition AR_NFC_DISABLED :: string where
  "AR_NFC_DISABLED =
    [CHR 0x4E, CHR 0x46, CHR 0x43, CHR 0x20, CHR 0xD8, CHR 0xBA, CHR 0xD9, CHR 0x8A,
     CHR 0xD8, CHR 0xB1, CHR 0x20, CHR 0xD9, CHR 0x85, CHR 0xD9, CHR 0x81, CHR 0xD8,
     CHR 0xB9, CHR 0xD9, CHR 0x84]"

definition AR_SCAN_TIMEOUT :: string where
  "AR_SCAN_TIMEOUT =
    [CHR 0xD8, CHR 0xA7, CHR 0xD9, CHR 0x86, CHR 0xD8, CHR 0xAA, CHR 0xD9, CHR 0x87,
     CHR 0xD8, CHR 0xAA, CHR 0x20, CHR 0xD9, CHR 0x85, CHR 0xD9, CHR 0x87, CHR 0xD9,
     CHR 0x84, CHR 0xD8, CHR 0xA9, CHR 0x20, CHR 0xD8, CHR 0xA7, CHR 0xD9, CHR 0x84,
     CHR 0xD9, CHR 0x85, CHR 0xD8, CHR 0xB3, CHR 0xD8, CHR 0xAD]"

definition AR_INVALID_CARD :: string where
  "AR_INVALID_CARD =
    [CHR 0xD8, CHR 0xB1, CHR 0xD9, CHR 0x82, CHR 0xD8, CHR 0xA7, CHR 0xD9, CHR 0x82,
     CHR 0xD8, CHR 0xA9, CHR 0x20, CHR 0xD8, CHR 0xBA, CHR 0xD9, CHR 0x8A, CHR 0xD8,
     CHR 0xB1, CHR 0x20, CHR 0xD8, CHR 0xB5, CHR 0xD8, CHR 0xA7, CHR 0xD9, CHR 0x84,
     CHR 0xD8, CHR 0xAD, CHR 0xD8, CHR 0xA9]"

definition AR_NETWORK_ERROR :: string where
  "AR_NETWORK_ERROR =
    [CHR 0xD8, CHR 0xAE, CHR 0xD8, CHR 0xB7, CHR 0xD8, CHR 0xA3, CHR 0x20, CHR 0xD9,
     CHR 0x81, CHR 0xD9, CHR 0x8A, CHR 0x20, CHR 0xD8, CHR 0xA7, CHR 0xD9, CHR 0x84,
     CHR 0xD8, CHR 0xA7, CHR 0xD8, CHR 0xAA, CHR 0xD8, CHR 0xB5, CHR 0xD8, CHR 0xA7,
     CHR 0xD9, CHR 0x84, CHR 0x20, CHR 0xD8, CHR 0xA8, CHR 0xD8, CHR 0xA7, CHR 0xD9,
     CHR 0x84, CHR 0xD8, CHR 0xB4, CHR 0xD8, CHR 0xA8, CHR 0xD9, CHR 0x83, CHR 0xD8,
     CHR 0xA9]"

definition AR_SERVER_ERROR :: string where
  "AR_SERVER_ERROR =
    [CHR 0xD8, CHR 0xAE, CHR 0xD8, CHR 0xB7, CHR 0xD8, CHR 0xA3, CHR 0x20, CHR 0xD9,
     CHR 0x81, CHR 0xD9, CHR 0x8A, CHR 0x20, CHR 0xD8, CHR 0xA7, CHR 0xD9, CHR 0x84,
     CHR 0xD8, CHR 0xAE, CHR 0xD8, CHR 0xA7, CHR 0xD8, CHR 0xAF, CHR 0xD9, CHR 0x85]"

definition AR_UNKNOWN :: string where
  "AR_UNKNOWN =
    [CHR 0xD8, CHR 0xAE, CHR 0xD8, CHR 0xB7, CHR 0xD8, CHR 0xA3, CHR 0x20, CHR 0xD8,
     CHR 0xBA, CHR 0xD9, CHR 0x8A, CHR 0xD8, CHR 0xB1, CHR 0x20, CHR 0xD9, CHR 0x85,
     CHR 0xD8, CHR 0xB9, CHR 0xD8, CHR 0xB1, CHR 0xD9, CHR 0x88, CHR 0xD9, CHR 0x81]"

section \<open>The store (store/index.ts)\<close>

text \<open>
  \<^verbatim>\<open>mapErrorMessage\<close>: the table lookup, with the fallback for a missing key. (A code
  that names a property every JavaScript object inherits, such as \<^verbatim>\<open>constructor\<close>, is
  treated as a missing key.)
\<close>

definition errorMap :: "(string \<times> string) list" where
  "errorMap =
     [(''PILGRIM_NOT_FOUND'', AR_PILGRIM_NOT_FOUND),
      (''ALREADY_ONBOARD'', AR_ALREADY_ONBOARD),
      (''ALREADY_OFFBOARD'', AR_ALREADY_OFFBOARD),
      (''NFC_NOT_SUPPORTED'', AR_NFC_NOT_SUPPORTED),
      (''NFC_DISABLED'', AR_NFC_DISABLED),
      (''SCAN_TIMEOUT'', AR_SCAN_TIMEOUT),
      (''INVALID_CARD'', AR_INVALID_CARD),
      (''NETWORK_ERROR'', AR_NETWORK_ERROR),
      (''SERVER_ERROR'', AR_SERVER_ERROR)]"

definition mapErrorMessage :: "string \<Rightarrow> string" where
  "mapErrorMessage errorCode =
     (case map_of errorMap errorCode of
        Some m \<Rightarrow> orElse m AR_UNKNOWN
      | None \<Rightarrow> AR_UNKNOWN)"

text \<open>
  \<^verbatim>\<open>state.pilgrims[index] = updatedPilgrim\<close> at the \<^verbatim>\<open>findIndex\<close> of the id, nothing
  when the index is -1.
\<close>

fun replaceAtId :: "string \<Rightarrow> Pilgrim \<Rightarrow> Pilgrim list \<Rightarrow> Pilgrim list" where
  "replaceAtId i u [] = []"
| "replaceAtId i u (p # ps) = (if pid p = i then u # ps else p # replaceAtId i u ps)"

text \<open>\<^verbatim>\<open>failedScans++; totalScanned++\<close>, as each of the three \<^verbatim>\<open>catch\<close> blocks does.\<close>

definition countFailure :: "SessionStats \<Rightarrow> SessionStats" where
  "countFailure s = s\<lparr> failedScans := failedScans s + 1, totalScanned := totalScanned s + 1 \<rparr>"

text \<open>The counter updates after a persist that succeeded.\<close>

definition countSuccess :: "StatusVal \<Rightarrow> SessionStats \<Rightarrow> SessionStats" where
  "countSuccess st s =
     (let s1 = (if st = Onboard then s\<lparr> onboardCount := onboardCount s + 1 \<rparr>
                else s\<lparr> offboardCount := offboardCount s + 1 \<rparr>)
      in s1\<lparr> successfulScans := successfulScans s1 + 1, totalScanned := totalScanned s1 + 1 \<rparr>)"

definition updatePilgrimStatus ::
  "Env \<Rightarrow> string \<Rightarrow> StatusVal \<Rightarrow> World \<Rightarrow> (Thrown + Pilgrim) \<times> World" where
  "updatePilgrimStatus env pilgrimId st w =
     (case pb_updatePilgrimStatus (updateFault env) pilgrimId st w of
        (Inr updatedPilgrim, w1) \<Rightarrow>
          (Inr updatedPilgrim,
           w1\<lparr> app := (app w1)
                 \<lparr> pilgrims := replaceAtId pilgrimId updatedPilgrim (pilgrims (app w1)),
                   sessionStats := countSuccess st (sessionStats (app w1)) \<rparr> \<rparr>)
      | (Inl e, w1) \<Rightarrow>
          (Inl e,
           w1\<lparr> app := (app w1)
                 \<lparr> error := Some (orElse (thrown_message e) ''Failed to update pilgrim status''),
                   sessionStats := countFailure (sessionStats (app w1)) \<rparr> \<rparr>))"

text \<open>The \<^verbatim>\<open>catch\<close> block of \<^verbatim>\<open>processScan\<close>: record, count, rethrow.\<close>

definition processScanFailed :: "Thrown \<Rightarrow> World \<Rightarrow> (Thrown + unit) \<times> World" where
  "processScanFailed e w =
     (Inl e,
      w\<lparr> app := (app w)
            \<lparr> error := Some (mapErrorMessage (thrown_message e)),
              sessionStats := countFailure (sessionStats (app w)) \<rparr> \<rparr>)"

definition processScan :: "Env \<Rightarrow> string \<Rightarrow> World \<Rightarrow> (Thrown + unit) \<times> World" where
  "processScan env c w =
     (case pb_getPilgrimByNfcId (lookupFault env) (oddFilterAnswer env) c w of
        (Inl e, w1) \<Rightarrow> processScanFailed e w1
      | (Inr None, w1) \<Rightarrow> processScanFailed (JsError ''PILGRIM_NOT_FOUND'') w1
      | (Inr (Some pilgrim), w1) \<Rightarrow>
          (let newStatus = scanningMode (app w1) in
           if newStatus = Onboard \<and> status pilgrim = Onboard
             then processScanFailed (JsError ''ALREADY_ONBOARD'') w1
           else if newStatus = Offboard \<and> status pilgrim = Offboard
             then processScanFailed (JsError ''ALREADY_OFFBOARD'') w1
           else
             (case updatePilgrimStatus env (pid pilgrim) newStatus w1 of
                (Inl e, w2) \<Rightarrow> processScanFailed e w2
              | (Inr u, w2) \<Rightarrow>
                  (Inr (), w2\<lparr> app := (app w2)\<lparr> selectedPilgrim := Some pilgrim \<rparr> \<rparr>))))"

text \<open>
  \<^verbatim>\<open>startScanning\<close> of the store: one scan cycle, in the two stretches that its
  \<^verbatim>\<open>await\<close> on the adapter separates. The first stretch is the opening
  \<^verbatim>\<open>set\<close>. The second calls the adapter and goes on from its result: the result is
  handed to \<^verbatim>\<open>processScan\<close> when it carries a card identifier, and becomes a thrown
  \<^verbatim>\<open>Error\<close> otherwise; whatever is thrown inside the \<^verbatim>\<open>try\<close>, also by
  \<^verbatim>\<open>processScan\<close>, reaches the \<^verbatim>\<open>catch\<close> block. Another store action can
  only run between the two stretches (the adapter itself never reads or writes the store).
\<close>

definition startScanning_begin :: "StatusVal \<Rightarrow> World \<Rightarrow> World" where
  "startScanning_begin mode w =
     w\<lparr> app := (app w)
           \<lparr> scanningMode := mode,
             nfc := (nfc (app w))\<lparr> isScanning := True \<rparr>,
             error := None \<rparr> \<rparr>"

definition startScanning_resume :: "Env \<Rightarrow> World \<Rightarrow> World" where
  "startScanning_resume env w1 =
     (let (scanResult, w2) = nfc_startScanning (hw env) (now env) w1;
          w3 = w2\<lparr> app := (app w2)
                    \<lparr> nfc := (nfc (app w2))
                        \<lparr> lastScanResult := Some scanResult, isScanning := False \<rparr> \<rparr> \<rparr>;
          (r, w4) =
            (case cardId scanResult of
               Some c \<Rightarrow>
                 (if success scanResult \<and> c \<noteq> [] then processScan env c w3
                  else (Inl (JsError (orElse (case scanError scanResult of None \<Rightarrow> [] | Some m \<Rightarrow> m)
                                        ''Scan failed'')), w3))
             | None \<Rightarrow>
                 (Inl (JsError (orElse (case scanError scanResult of None \<Rightarrow> [] | Some m \<Rightarrow> m)
                                  ''Scan failed'')), w3))
      in case r of
           Inr u \<Rightarrow> w4
         | Inl e \<Rightarrow>
             w4\<lparr> app := (app w4)
                   \<lparr> nfc := (nfc (app w4))\<lparr> isScanning := False \<rparr>,
                     error := Some (orElse (thrown_message e) ''Scanning failed''),
                     sessionStats := countFailure (sessionStats (app w4)) \<rparr> \<rparr>)"

definition startScanning :: "Env \<Rightarrow> StatusVal \<Rightarrow> World \<Rightarrow> World" where
  "startScanning env mode w = startScanning_resume env (startScanning_begin mode w)"

definition stopScanning :: "Hardware \<Rightarrow> World \<Rightarrow> World" where
  "stopScanning h w =
     (let w1 = nfc_stopScanning h w in
      w1\<lparr> app := (app w1)
            \<lparr> nfc := (nfc (app w1))\<lparr> isScanning := False \<rparr>,
              scanningMode := Idle \<rparr> \<rparr>)"

text \<open>The session actions; \<open>t\<close> is \<^verbatim>\<open>Date.now()\<close>.\<close>

definition startSession :: "StatusVal \<Rightarrow> nat \<Rightarrow> World \<Rightarrow> World" where
  "startSession mode t w =
     w\<lparr> app := (app w)
           \<lparr> scanningMode := mode,
             sessionStats :=
               \<lparr> totalScanned = 0, successfulScans = 0, failedScans = 0,
                 onboardCount = 0, offboardCount = 0,
                 startTime = Some t, endTime = None \<rparr> \<rparr> \<rparr>"

definition endSession :: "nat \<Rightarrow> World \<Rightarrow> World" where
  "endSession t w =
     w\<lparr> app := (app w)
           \<lparr> scanningMode := Idle,
             sessionStats := (sessionStats (app w))\<lparr> endTime := Some t \<rparr>,
             nfc := (nfc (app w))\<lparr> isScanning := False \<rparr> \<rparr> \<rparr>"

definition resetSession :: "World \<Rightarrow> World" where
  "resetSession w =
     w\<lparr> app := (app w)
           \<lparr> sessionStats :=
               \<lparr> totalScanned = 0, successfulScans = 0, failedScans = 0,
                 onboardCount = 0, offboardCount = 0,
                 startTime = None, endTime = None \<rparr>,
             scanningMode := Idle,
             nfc := (nfc (app w))\<lparr> isScanning := False \<rparr>,
             selectedPilgrim := None \<rparr> \<rparr>"

section \<open>Session statistics over sequences of store actions\<close>

text \<open>The relation between the three scan counters.\<close>

definition statsConsistent :: "SessionStats \<Rightarrow> bool" where
  "statsConsistent s = (totalScanned s = successfulScans s + failedScans s)"

text \<open>
  One store action together with what the outside world answers while it runs. An action
  runs to its end before the next one starts.
\<close>

datatype Op =
    StartSession StatusVal nat
  | StartScanning Env StatusVal
  | StopScanning Hardware
  | ProcessScan Env string
  | UpdatePilgrimStatus Env string StatusVal
  | EndSession nat
  | ResetSession

fun applyOp :: "Op \<Rightarrow> World \<Rightarrow> World" where
  "applyOp (StartSession mode t) w = startSession mode t w"
| "applyOp (StartScanning env mode) w = startScanning env mode w"
| "applyOp (StopScanning h) w = stopScanning h w"
| "applyOp (ProcessScan env c) w = snd (processScan env c w)"
| "applyOp (UpdatePilgrimStatus env i st) w = snd (updatePilgrimStatus env i st w)"
| "applyOp (EndSession t) w = endSession t w"
| "applyOp ResetSession w = resetSession w"

fun runOps :: "Op list \<Rightarrow> World \<Rightarrow> World" where
  "runOps [] w = w"
| "runOps (x # xs) w = runOps xs (applyOp x w)"

section \<open>Concrete scenarios\<close>

definition amina :: Pilgrim where
  "amina = \<lparr> pid = ''p1'', full_name = ''Amina'', nfc_card_id = ''A1'', status = Offboard \<rparr>"

definition bilal :: Pilgrim where
  "bilal = \<lparr> pid = ''p2'', full_name = ''Bilal'', nfc_card_id = ''B2'', status = Onboard \<rparr>"

text \<open>A reader that is present, enabled and reads a tag with identifier \<open>c\<close>.\<close>

definition readerReads :: "string \<Rightarrow> Hardware" where
  "readerReads c =
     \<lparr> nfcManagerPresent = True, isSupported_r = Inr True, start_r = None,
       isEnabled_r = Inr True, requestTechnology_r = Resolved True, getTag_r = None,
       extractCardId_r = Some c \<rparr>"

text \<open>The same reader when no tag shows up before the adapter's timer fires.\<close>

definition readerTimesOut :: Hardware where
  "readerTimesOut = (readerReads [])\<lparr> requestTechnology_r := TimerFired \<rparr>"

text \<open>The same reader when the pending request is rejected with \<open>e\<close>.\<close>

definition readerRejects :: "AnyThrown \<Rightarrow> Hardware" where
  "readerRejects e = (readerReads [])\<lparr> requestTechnology_r := Rejected e \<rparr>"

definition calmEnv :: "string \<Rightarrow> Env" where
  "calmEnv c =
     \<lparr> hw = readerReads c, lookupFault = None, oddFilterAnswer = Inl notFound404,
       updateFault = None, now = 1000 \<rparr>"

definition freshWorld :: "Pilgrim list \<Rightarrow> World" where
  "freshWorld db = \<lparr> app = initialState, isInitialized = False, remote = db, calls = [] \<rparr>"

definition serverDown :: SdkErr where
  "serverDown = SdkErr (Some 500) (Some ''Something went wrong.'')"

definition boardingRun :: World where
  "boardingRun = startSession Onboard 1000 (freshWorld [amina, bilal])"

definition alightingRun :: World where
  "alightingRun = startSession Offboard 1000 (freshWorld [amina, bilal])"

definition userCancelled :: AnyThrown where
  "userCancelled = newError ''The request was cancelled by the user''"

definition cancelledWhileDisabled :: AnyThrown where
  "cancelledWhileDisabled = newError ''NFC_DISABLED: request cancelled''"

section \<open>Evaluation of the model\<close>

lemmas scenario_defs =
  amina_def bilal_def readerReads_def readerTimesOut_def readerRejects_def calmEnv_def
  freshWorld_def serverDown_def boardingRun_def alightingRun_def userCancelled_def
  cancelledWhileDisabled_def initialState_def

lemmas model_defs =
  startScanning_def startScanning_begin_def startScanning_resume_def nfc_startScanning_def scanAttempt_def nfc_initialize_def nfc_isEnabled_def
  nfc_stopScanning_def logCall_def processScan_def processScanFailed_def
  pb_getPilgrimByNfcId_def sdk_getFirstListItem_def notFound404_def isNotFoundError_def
  handleError_def sdk_message_def orElse_def updatePilgrimStatus_def pb_updatePilgrimStatus_def
  sdk_update_def countFailure_def countSuccess_def startSession_def endSession_def
  resetSession_def stopScanning_def

section \<open>What the services leave untouched\<close>

lemma logCall_simps [simp]:
  "app (logCall c w) = app w"
  "remote (logCall c w) = remote w"
  "isInitialized (logCall c w) = isInitialized w"
  "calls (logCall c w) = calls w @ [c]"
  by (simp_all add: logCall_def)

lemma plainCardFilter_cardFilter [simp]:
  "plainCardFilter (cardFilter c) =
     (if CHR 0x22 \<notin> set c \<and> CHR 0x5C \<notin> set c then Some c else None)"
  by (simp add: plainCardFilter_def cardFilter_def Let_def)

lemma pb_getPilgrimByNfcId_frame [simp]:
  "app (snd (pb_getPilgrimByNfcId f other c w)) = app w"
  "remote (snd (pb_getPilgrimByNfcId f other c w)) = remote w"
  "isInitialized (snd (pb_getPilgrimByNfcId f other c w)) = isInitialized w"
  "calls (snd (pb_getPilgrimByNfcId f other c w)) = calls w @ [PbGetFirstListItem (cardFilter c)]"
  by (simp_all add: pb_getPilgrimByNfcId_def Let_def split: sum.splits)

lemma pb_updatePilgrimStatus_frame [simp]:
  "app (snd (pb_updatePilgrimStatus f i s w)) = app w"
  "isInitialized (snd (pb_updatePilgrimStatus f i s w)) = isInitialized w"
  "calls (snd (pb_updatePilgrimStatus f i s w)) = calls w @ [PbUpdate i s]"
  by (simp_all add: pb_updatePilgrimStatus_def Let_def split: sum.splits prod.splits)

lemma nfc_initialize_frame [simp]:
  "app (snd (nfc_initialize h w)) = app w"
  "remote (snd (nfc_initialize h w)) = remote w"
  "filter isRecordStoreCall (calls (snd (nfc_initialize h w))) = filter isRecordStoreCall (calls w)"
  by (simp_all add: nfc_initialize_def Let_def split: sum.splits option.splits)

lemma nfc_isEnabled_frame [simp]:
  "app (snd (nfc_isEnabled h w)) = app w"
  "remote (snd (nfc_isEnabled h w)) = remote w"
  "filter isRecordStoreCall (calls (snd (nfc_isEnabled h w))) = filter isRecordStoreCall (calls w)"
  by (simp_all add: nfc_isEnabled_def Let_def split: sum.splits)

lemma nfc_stopScanning_frame [simp]:
  "app (nfc_stopScanning h w) = app w"
  "remote (nfc_stopScanning h w) = remote w"
  "isInitialized (nfc_stopScanning h w) = isInitialized w"
  "filter isRecordStoreCall (calls (nfc_stopScanning h w)) = filter isRecordStoreCall (calls w)"
  by (simp_all add: nfc_stopScanning_def)

lemma scanAttempt_frame [simp]:
  "app (snd (scanAttempt h w)) = app w"
  "remote (snd (scanAttempt h w)) = remote w"
  "filter isRecordStoreCall (calls (snd (scanAttempt h w))) = filter isRecordStoreCall (calls w)"
  by (simp_all add: scanAttempt_def Let_def case_prod_beta split: TechResp.splits option.splits)

lemma nfc_startScanning_frame [simp]:
  "app (snd (nfc_startScanning h t w)) = app w"
  "remote (snd (nfc_startScanning h t w)) = remote w"
  "filter isRecordStoreCall (calls (snd (nfc_startScanning h t w))) = filter isRecordStoreCall (calls w)"
  by (simp_all add: nfc_startScanning_def Let_def case_prod_beta)

section \<open>The results of the adapter\<close>

lemma nfc_initialize_fst: "fst (nfc_initialize h w) =
   (nfcManagerPresent h \<and> isSupported_r h = Inr True \<and> start_r h = None)"
  by (auto simp: nfc_initialize_def Let_def split: sum.splits option.splits)

lemma nfc_isEnabled_fst: "fst (nfc_isEnabled h w) = (nfcManagerPresent h \<and> isEnabled_r h = Inr True)"
  by (auto simp: nfc_isEnabled_def Let_def split: sum.splits)

lemma scanAttempt_fst_cong:
  "isInitialized w' = isInitialized w \<Longrightarrow> fst (scanAttempt h w') = fst (scanAttempt h w)"
  by (simp add: scanAttempt_def Let_def case_prod_beta nfc_initialize_fst nfc_isEnabled_fst
      split: TechResp.splits option.splits)

lemma nfc_startScanning_fst:
  "fst (nfc_startScanning h t w) =
     (case fst (scanAttempt h w) of
        Inr c \<Rightarrow> \<lparr> success = True, cardId = Some c, scanError = None, timestamp = t \<rparr>
      | Inl e \<Rightarrow> \<lparr> success = False, cardId = None,
                   scanError = Some (mapErrorToMessage e), timestamp = t \<rparr>)"
  by (simp add: nfc_startScanning_def Let_def case_prod_beta)

lemma mapErrorToMessage_timeout [simp]:
  "mapErrorToMessage (newError ''SCAN_TIMEOUT'') = ''SCAN_TIMEOUT''"
  by (simp add: mapErrorToMessage_def errorMessage_def newError_def orElse_def Let_def)

lemma scanAttempt_timeout:
  assumes "nfcManagerPresent h"
      and "isInitialized w \<or> (isSupported_r h = Inr True \<and> start_r h = None)"
      and "isEnabled_r h = Inr True"
      and "requestTechnology_r h = TimerFired"
  shows "fst (scanAttempt h w) = Inl (newError ''SCAN_TIMEOUT'')"
  using assms
  by (auto simp: scanAttempt_def Let_def case_prod_beta nfc_initialize_fst nfc_isEnabled_fst)

section \<open>The store actions, step by step\<close>

lemma countFailure_consistent: "statsConsistent s \<Longrightarrow> statsConsistent (countFailure s)"
  by (simp add: statsConsistent_def countFailure_def)

lemma countSuccess_consistent: "statsConsistent s \<Longrightarrow> statsConsistent (countSuccess st s)"
  by (simp add: statsConsistent_def countSuccess_def Let_def)

lemma updatePilgrimStatus_fst:
  "fst (updatePilgrimStatus env i st w) = fst (pb_updatePilgrimStatus (updateFault env) i st w)"
  by (simp add: updatePilgrimStatus_def case_prod_beta split: sum.splits)

lemma updatePilgrimStatus_app:
  "app (snd (updatePilgrimStatus env i st w)) =
     (case fst (pb_updatePilgrimStatus (updateFault env) i st w) of
        Inr u \<Rightarrow> (app w)\<lparr> pilgrims := replaceAtId i u (pilgrims (app w)),
                          sessionStats := countSuccess st (sessionStats (app w)) \<rparr>
      | Inl e \<Rightarrow> (app w)\<lparr> error := Some (orElse (thrown_message e) ''Failed to update pilgrim status''),
                          sessionStats := countFailure (sessionStats (app w)) \<rparr>)"
  by (simp add: updatePilgrimStatus_def case_prod_beta split: sum.splits)

lemma updatePilgrimStatus_calls:
  "calls (snd (updatePilgrimStatus env i st w)) = calls w @ [PbUpdate i st]"
  by (simp add: updatePilgrimStatus_def case_prod_beta split: sum.splits)

lemma updatePilgrimStatus_consistent:
  "statsConsistent (sessionStats (app w)) \<Longrightarrow>
   statsConsistent (sessionStats (app (snd (updatePilgrimStatus env i st w))))"
  by (simp add: updatePilgrimStatus_app countFailure_consistent countSuccess_consistent
      split: sum.splits)

lemma processScanFailed_simps [simp]:
  "fst (processScanFailed e w) = Inl e"
  "sessionStats (app (snd (processScanFailed e w))) = countFailure (sessionStats (app w))"
  "error (app (snd (processScanFailed e w))) = Some (mapErrorMessage (thrown_message e))"
  "pilgrims (app (snd (processScanFailed e w))) = pilgrims (app w)"
  "scanningMode (app (snd (processScanFailed e w))) = scanningMode (app w)"
  "selectedPilgrim (app (snd (processScanFailed e w))) = selectedPilgrim (app w)"
  "nfc (app (snd (processScanFailed e w))) = nfc (app w)"
  "calls (snd (processScanFailed e w)) = calls w"
  "remote (snd (processScanFailed e w)) = remote w"
  "isInitialized (snd (processScanFailed e w)) = isInitialized w"
  by (simp_all add: processScanFailed_def)

lemma AR_nonempty [simp]:
  "AR_PILGRIM_NOT_FOUND \<noteq> []" "AR_ALREADY_ONBOARD \<noteq> []" "AR_ALREADY_OFFBOARD \<noteq> []"
  by (simp_all add: AR_PILGRIM_NOT_FOUND_def AR_ALREADY_ONBOARD_def AR_ALREADY_OFFBOARD_def)

lemma mapErrorMessage_kinds [simp]:
  "mapErrorMessage ''PILGRIM_NOT_FOUND'' = AR_PILGRIM_NOT_FOUND"
  "mapErrorMessage ''ALREADY_ONBOARD'' = AR_ALREADY_ONBOARD"
  "mapErrorMessage ''ALREADY_OFFBOARD'' = AR_ALREADY_OFFBOARD"
  by (simp_all add: mapErrorMessage_def errorMap_def orElse_def)

lemma processScan_already:
  assumes "sdk_getFirstListItem (lookupFault env) (oddFilterAnswer env) (remote w) (cardFilter c) = Inr p"
      and "scanningMode (app w) = Onboard \<or> scanningMode (app w) = Offboard"
      and "status p = scanningMode (app w)"
  shows "processScan env c w =
           processScanFailed
             (JsError (if scanningMode (app w) = Onboard then ''ALREADY_ONBOARD''
                       else ''ALREADY_OFFBOARD''))
             (logCall (PbGetFirstListItem (cardFilter c)) w)"
  using assms by (auto simp: processScan_def pb_getPilgrimByNfcId_def Let_def)



text \<open>
  An identifier with a double quote in it makes a filter text that is no comparison with that
  identifier; the answer is then the environment's.
\<close>

lemma sdk_getFirstListItem_quoted:
  assumes "CHR 0x22 \<in> set c"
  shows "sdk_getFirstListItem None other db (cardFilter c) = other"
  using assms by (simp add: sdk_getFirstListItem_def)


lemma processScan_consistent:
  assumes "statsConsistent (sessionStats (app w))"
  shows "statsConsistent (sessionStats (app (snd (processScan env c w))))"
proof -
  have a: "statsConsistent (sessionStats (app (snd (pb_getPilgrimByNfcId (lookupFault env)
             (oddFilterAnswer env) c w))))"
    using assms by simp
  show ?thesis
    using a
    by (simp add: processScan_def case_prod_beta Let_def countFailure_consistent
        updatePilgrimStatus_consistent split: sum.splits option.splits)
qed

lemma startScanning_resume_consistent:
  assumes "statsConsistent (sessionStats (app w1))"
  shows "statsConsistent (sessionStats (app (startScanning_resume env w1)))"
proof -
  define res where "res = nfc_startScanning (hw env) (now env) w1"
  define w3 where "w3 = (snd res)\<lparr> app := (app (snd res))
                    \<lparr> nfc := (nfc (app (snd res)))
                        \<lparr> lastScanResult := Some (fst res), isScanning := False \<rparr> \<rparr> \<rparr>"
  have c3: "statsConsistent (sessionStats (app w3))"
    using assms by (simp add: w3_def res_def)
  have c4: "statsConsistent (sessionStats (app (snd (processScan env c w3))))" for c
    using c3 by (rule processScan_consistent)
  show ?thesis
    unfolding startScanning_resume_def Let_def case_prod_beta
    unfolding res_def [symmetric]
    unfolding w3_def [symmetric]
    using c3 c4
    by (simp add: countFailure_consistent split: option.splits sum.splits)
qed

lemma startScanning_consistent:
  assumes "statsConsistent (sessionStats (app w))"
  shows "statsConsistent (sessionStats (app (startScanning env mode w)))"
proof -
  have "statsConsistent (sessionStats (app (startScanning_begin mode w)))"
    using assms by (simp add: startScanning_begin_def)
  then show ?thesis
    unfolding startScanning_def by (rule startScanning_resume_consistent)
qed

text \<open>What the store does with a scan attempt that ended in an error.\<close>

lemma startScanning_resume_no_card:
  assumes "fst (scanAttempt (hw env) w1) = Inl e"
  shows "app (startScanning_resume env w1) =
           (app w1)\<lparr> nfc := (nfc (app w1))
                      \<lparr> lastScanResult :=
                          Some \<lparr> success = False, cardId = None,
                                 scanError = Some (mapErrorToMessage e), timestamp = now env \<rparr>,
                        isScanning := False \<rparr>,
                    error := Some (orElse (orElse (mapErrorToMessage e) ''Scan failed'') ''Scanning failed''),
                    sessionStats := countFailure (sessionStats (app w1)) \<rparr>"
    and "remote (startScanning_resume env w1) = remote w1"
    and "filter isRecordStoreCall (calls (startScanning_resume env w1)) =
           filter isRecordStoreCall (calls w1)"
proof -
  have res: "fst (nfc_startScanning (hw env) (now env) w1) =
      \<lparr> success = False, cardId = None, scanError = Some (mapErrorToMessage e), timestamp = now env \<rparr>"
    using assms by (simp add: nfc_startScanning_fst)
  show "app (startScanning_resume env w1) =
           (app w1)\<lparr> nfc := (nfc (app w1))
                      \<lparr> lastScanResult :=
                          Some \<lparr> success = False, cardId = None,
                                 scanError = Some (mapErrorToMessage e), timestamp = now env \<rparr>,
                        isScanning := False \<rparr>,
                    error := Some (orElse (orElse (mapErrorToMessage e) ''Scan failed'') ''Scanning failed''),
                    sessionStats := countFailure (sessionStats (app w1)) \<rparr>"
    by (simp add: startScanning_resume_def Let_def case_prod_beta res)
  show "remote (startScanning_resume env w1) = remote w1"
    by (simp add: startScanning_resume_def Let_def case_prod_beta res)
  show "filter isRecordStoreCall (calls (startScanning_resume env w1)) =
          filter isRecordStoreCall (calls w1)"
    by (simp add: startScanning_resume_def Let_def case_prod_beta res)
qed

lemma startScanning_no_card:
  assumes "fst (scanAttempt (hw env) w) = Inl e"
  shows "app (startScanning env mode w) =
           (app w)\<lparr> scanningMode := mode,
                    nfc := (nfc (app w))
                      \<lparr> lastScanResult :=
                          Some \<lparr> success = False, cardId = None,
                                 scanError = Some (mapErrorToMessage e), timestamp = now env \<rparr>,
                        isScanning := False \<rparr>,
                    error := Some (orElse (orElse (mapErrorToMessage e) ''Scan failed'') ''Scanning failed''),
                    sessionStats := countFailure (sessionStats (app w)) \<rparr>"
    and "remote (startScanning env mode w) = remote w"
    and "filter isRecordStoreCall (calls (startScanning env mode w)) = filter isRecordStoreCall (calls w)"
proof -
  have att: "fst (scanAttempt (hw env) (startScanning_begin mode w)) = Inl e"
    using assms scanAttempt_fst_cong [of "startScanning_begin mode w" w "hw env"]
    by (simp add: startScanning_begin_def)
  show "app (startScanning env mode w) =
           (app w)\<lparr> scanningMode := mode,
                    nfc := (nfc (app w))
                      \<lparr> lastScanResult :=
                          Some \<lparr> success = False, cardId = None,
                                 scanError = Some (mapErrorToMessage e), timestamp = now env \<rparr>,
                        isScanning := False \<rparr>,
                    error := Some (orElse (orElse (mapErrorToMessage e) ''Scan failed'') ''Scanning failed''),
                    sessionStats := countFailure (sessionStats (app w)) \<rparr>"
    unfolding startScanning_def startScanning_resume_no_card(1) [OF att]
    by (simp add: startScanning_begin_def)
  show "remote (startScanning env mode w) = remote w"
    unfolding startScanning_def startScanning_resume_no_card(2) [OF att]
    by (simp add: startScanning_begin_def)
  show "filter isRecordStoreCall (calls (startScanning env mode w)) = filter isRecordStoreCall (calls w)"
    unfolding startScanning_def startScanning_resume_no_card(3) [OF att]
    by (simp add: startScanning_begin_def)
qed

lemma applyOp_consistent:
  "statsConsistent (sessionStats (app w)) \<Longrightarrow> statsConsistent (sessionStats (app (applyOp x w)))"
proof (cases x)
  case (StartSession mode t)
  then show ?thesis by (simp add: startSession_def statsConsistent_def)
next
  case (StartScanning env mode)
  assume "statsConsistent (sessionStats (app w))"
  with StartScanning show ?thesis by (simp add: startScanning_consistent)
next
  case (StopScanning h)
  assume "statsConsistent (sessionStats (app w))"
  with StopScanning show ?thesis by (simp add: stopScanning_def Let_def)
next
  case (ProcessScan env c)
  assume "statsConsistent (sessionStats (app w))"
  with ProcessScan show ?thesis by (simp add: processScan_consistent)
next
  case (UpdatePilgrimStatus env i st)
  assume "statsConsistent (sessionStats (app w))"
  with UpdatePilgrimStatus show ?thesis by (simp add: updatePilgrimStatus_consistent)
next
  case (EndSession t)
  assume "statsConsistent (sessionStats (app w))"
  with EndSession show ?thesis by (simp add: endSession_def statsConsistent_def)
next
  case ResetSession
  then show ?thesis by (simp add: resetSession_def statsConsistent_def)
qed

lemma runOps_consistent:
  "statsConsistent (sessionStats (app w)) \<Longrightarrow> statsConsistent (sessionStats (app (runOps ops w)))"
  by (induction ops arbitrary: w) (simp_all add: applyOp_consistent)

section \<open>The counters stay consistent\<close>

text \<open>
  C1. Whatever sequence of store actions runs (\<^verbatim>\<open>startSession\<close>, \<^verbatim>\<open>startScanning\<close>,
  \<^verbatim>\<open>stopScanning\<close>, \<^verbatim>\<open>processScan\<close>, \<^verbatim>\<open>updatePilgrimStatus\<close>,
  \<^verbatim>\<open>endSession\<close>, \<^verbatim>\<open>resetSession\<close>), with whatever the reader and the Record
  Store answer, \<open>totalScanned = successfulScans + failedScans\<close> holds after every action
  of the sequence (after each prefix \<open>take k ops\<close>), provided it held at the start, as it
  does in the initial state.
\<close>

theorem stats_invariant:
  "statsConsistent (sessionStats (app w)) \<Longrightarrow>
   statsConsistent (sessionStats (app (runOps (take k ops) w)))"
  by (rule runOps_consistent)

theorem stats_invariant_witness:
  "statsConsistent (sessionStats (app (freshWorld [amina, bilal])))
   \<and> statsConsistent (sessionStats (app (runOps (take 3
        [StartSession Onboard 1000, StartScanning (calmEnv ''A1'') Onboard,
         StartScanning (calmEnv ''ZZ'') Onboard, EndSession 2000])
        (freshWorld [amina, bilal]))))"
proof -
  have h: "statsConsistent (sessionStats (app (freshWorld [amina, bilal])))"
    by (simp add: statsConsistent_def freshWorld_def initialState_def)
  show ?thesis
    using h stats_invariant [OF h, of 3 "[StartSession Onboard 1000, StartScanning (calmEnv ''A1'') Onboard,
         StartScanning (calmEnv ''ZZ'') Onboard, EndSession 2000]"]
    by simp
qed

section \<open>Failures and how often they are counted\<close>

text \<open>
  C2. One failed scan cycle driven through the store's \<^verbatim>\<open>startScanning\<close> is not counted
  once: an unknown card and an already-onboard pilgrim are each counted twice (by the
  \<^verbatim>\<open>catch\<close> of \<^verbatim>\<open>processScan\<close> and again by the \<^verbatim>\<open>catch\<close> of
  \<^verbatim>\<open>startScanning\<close>), a failed persist three times (also by
  \<^verbatim>\<open>updatePilgrimStatus\<close>). The session starts with all counters at zero.
\<close>

theorem failed_cycle_counted_repeatedly:
  "failedScans (sessionStats (app (startScanning (calmEnv ''ZZ'') Onboard boardingRun))) = 2
   \<and> totalScanned (sessionStats (app (startScanning (calmEnv ''ZZ'') Onboard boardingRun))) = 2
   \<and> failedScans (sessionStats (app (startScanning (calmEnv ''B2'') Onboard boardingRun))) = 2
   \<and> totalScanned (sessionStats (app (startScanning (calmEnv ''B2'') Onboard boardingRun))) = 2
   \<and> failedScans (sessionStats (app (startScanning
        ((calmEnv ''A1'')\<lparr>updateFault := Some serverDown\<rparr>) Onboard boardingRun))) = 3
   \<and> totalScanned (sessionStats (app (startScanning
        ((calmEnv ''A1'')\<lparr>updateFault := Some serverDown\<rparr>) Onboard boardingRun))) = 3"
  by (simp add: boardingRun_def bilal_def model_defs scenario_defs Let_def)

section \<open>Scans that change nothing\<close>

text \<open>
  C3. When the lookup returns a pilgrim whose status equals the session's mode (onboard or
  offboard), \<^verbatim>\<open>processScan\<close> throws \<^verbatim>\<open>ALREADY_ONBOARD\<close> respectively
  \<^verbatim>\<open>ALREADY_OFFBOARD\<close>, adds one to \<open>failedScans\<close> and to \<open>totalScanned\<close>, and the only
  outgoing call is the lookup: the persist operation is not called. A second scan of the same
  card does the same again, and neither the remote collection nor the in-memory list changes.
\<close>

theorem already_in_target_state:
  assumes found: "sdk_getFirstListItem (lookupFault env) (oddFilterAnswer env) (remote w) (cardFilter c) = Inr p"
      and mode: "scanningMode (app w) = Onboard \<or> scanningMode (app w) = Offboard"
      and same: "status p = scanningMode (app w)"
      and first: "processScan env c w = (r1, w1)"
      and second: "processScan env c w1 = (r2, w2)"
  shows "r1 = Inl (JsError (if scanningMode (app w) = Onboard then ''ALREADY_ONBOARD''
                            else ''ALREADY_OFFBOARD''))
       \<and> failedScans (sessionStats (app w1)) = failedScans (sessionStats (app w)) + 1
       \<and> totalScanned (sessionStats (app w1)) = totalScanned (sessionStats (app w)) + 1
       \<and> successfulScans (sessionStats (app w1)) = successfulScans (sessionStats (app w))
       \<and> calls w1 = calls w @ [PbGetFirstListItem (cardFilter c)]
       \<and> remote w1 = remote w
       \<and> pilgrims (app w1) = pilgrims (app w)
       \<and> r2 = r1
       \<and> failedScans (sessionStats (app w2)) = failedScans (sessionStats (app w)) + 2
       \<and> totalScanned (sessionStats (app w2)) = totalScanned (sessionStats (app w)) + 2
       \<and> successfulScans (sessionStats (app w2)) = successfulScans (sessionStats (app w))
       \<and> calls w2 = calls w @ [PbGetFirstListItem (cardFilter c), PbGetFirstListItem (cardFilter c)]
       \<and> remote w2 = remote w
       \<and> pilgrims (app w2) = pilgrims (app w)"
proof -
  let ?kind = "if scanningMode (app w) = Onboard then ''ALREADY_ONBOARD'' else ''ALREADY_OFFBOARD''"
  have one: "(r1, w1) = processScanFailed (JsError ?kind) (logCall (PbGetFirstListItem (cardFilter c)) w)"
    using processScan_already [OF found mode same] first by simp
  have r1: "r1 = Inl (JsError ?kind)"
    using one by (simp add: processScanFailed_def)
  have w1: "w1 = snd (processScanFailed (JsError ?kind) (logCall (PbGetFirstListItem (cardFilter c)) w))"
    using one by (metis snd_conv)
  have keep: "remote w1 = remote w" "scanningMode (app w1) = scanningMode (app w)"
    by (simp_all add: w1)
  have found1: "sdk_getFirstListItem (lookupFault env) (oddFilterAnswer env) (remote w1) (cardFilter c) = Inr p"
    using found keep by simp
  have mode1: "scanningMode (app w1) = Onboard \<or> scanningMode (app w1) = Offboard"
    using mode keep by simp
  have same1: "status p = scanningMode (app w1)"
    using same keep by simp
  have two: "(r2, w2) = processScanFailed (JsError ?kind) (logCall (PbGetFirstListItem (cardFilter c)) w1)"
    using processScan_already [OF found1 mode1 same1] second keep by simp
  have r2: "r2 = Inl (JsError ?kind)"
    using two by (simp add: processScanFailed_def)
  have w2: "w2 = snd (processScanFailed (JsError ?kind) (logCall (PbGetFirstListItem (cardFilter c)) w1))"
    using two by (metis snd_conv)
  have s1: "sessionStats (app w1) = countFailure (sessionStats (app w))"
    by (simp add: w1)
  have s2: "sessionStats (app w2) = countFailure (countFailure (sessionStats (app w)))"
    by (simp add: w2 s1)
  have c1: "calls w1 = calls w @ [PbGetFirstListItem (cardFilter c)]"
    by (simp add: w1)
  have c2: "calls w2 = calls w @ [PbGetFirstListItem (cardFilter c), PbGetFirstListItem (cardFilter c)]"
    by (simp add: w2 c1)
  have p1: "pilgrims (app w1) = pilgrims (app w)"
    by (simp add: w1)
  have p2: "pilgrims (app w2) = pilgrims (app w)"
    by (simp add: w2 p1)
  have d2: "remote w2 = remote w"
    by (simp add: w2 keep)
  show ?thesis
    using r1 r2 keep(1) c1 c2 p1 p2 d2 by (simp add: s1 s2 countFailure_def)
qed

theorem already_in_target_state_witness:
  "sdk_getFirstListItem (lookupFault (calmEnv ''B2'')) (oddFilterAnswer (calmEnv ''B2''))
       (remote boardingRun) (cardFilter ''B2'') = Inr bilal
   \<and> scanningMode (app boardingRun) = Onboard
   \<and> status bilal = scanningMode (app boardingRun)
   \<and> fst (processScan (calmEnv ''B2'') ''B2'' boardingRun) = Inl (JsError ''ALREADY_ONBOARD'')
   \<and> failedScans (sessionStats (app (snd (processScan (calmEnv ''B2'') ''B2''
        (snd (processScan (calmEnv ''B2'') ''B2'' boardingRun)))))) = 2
   \<and> remote (snd (processScan (calmEnv ''B2'') ''B2''
        (snd (processScan (calmEnv ''B2'') ''B2'' boardingRun)))) = [amina, bilal]"
proof -
  have h1: "sdk_getFirstListItem (lookupFault (calmEnv ''B2'')) (oddFilterAnswer (calmEnv ''B2''))
       (remote boardingRun) (cardFilter ''B2'') = Inr bilal"
    by (simp add: boardingRun_def startSession_def scenario_defs bilal_def sdk_getFirstListItem_def)
  have m: "scanningMode (app boardingRun) = Onboard"
    by (simp add: boardingRun_def startSession_def)
  have h2: "scanningMode (app boardingRun) = Onboard \<or> scanningMode (app boardingRun) = Offboard"
    using m by simp
  have h3: "status bilal = scanningMode (app boardingRun)"
    using m by (simp add: bilal_def)
  have z: "failedScans (sessionStats (app boardingRun)) = 0" "remote boardingRun = [amina, bilal]"
    by (simp_all add: boardingRun_def startSession_def freshWorld_def)
  have first: "processScan (calmEnv ''B2'') ''B2'' boardingRun =
      (fst (processScan (calmEnv ''B2'') ''B2'' boardingRun),
       snd (processScan (calmEnv ''B2'') ''B2'' boardingRun))"
    by simp
  have second: "processScan (calmEnv ''B2'') ''B2'' (snd (processScan (calmEnv ''B2'') ''B2'' boardingRun)) =
      (fst (processScan (calmEnv ''B2'') ''B2'' (snd (processScan (calmEnv ''B2'') ''B2'' boardingRun))),
       snd (processScan (calmEnv ''B2'') ''B2'' (snd (processScan (calmEnv ''B2'') ''B2'' boardingRun))))"
    by simp
  show ?thesis
    using h1 m h3 z already_in_target_state [OF h1 h2 h3 first second] by simp
qed



section \<open>Persisting a status\<close>

text \<open>
  C5. When the Record Store accepts the persist of status onboard and returns the updated
  record \<open>u\<close>, the store's \<^verbatim>\<open>updatePilgrimStatus\<close> returns \<open>u\<close>, and
  \<open>onboardCount\<close>, \<open>successfulScans\<close> and \<open>totalScanned\<close> have each grown by exactly
  one while \<open>offboardCount\<close> and \<open>failedScans\<close> are unchanged; symmetrically for
  offboard, with \<open>onboardCount\<close> unchanged.
\<close>

theorem persist_success_counts:
  assumes ok: "fst (sdk_update (updateFault env) (remote w) i st) = Inr u"
      and run: "updatePilgrimStatus env i st w = (r, w')"
  shows "r = Inr u
       \<and> pilgrims (app w') = replaceAtId i u (pilgrims (app w))
       \<and> (st = Onboard \<longrightarrow>
            onboardCount (sessionStats (app w')) = onboardCount (sessionStats (app w)) + 1
          \<and> successfulScans (sessionStats (app w')) = successfulScans (sessionStats (app w)) + 1
          \<and> totalScanned (sessionStats (app w')) = totalScanned (sessionStats (app w)) + 1
          \<and> offboardCount (sessionStats (app w')) = offboardCount (sessionStats (app w))
          \<and> failedScans (sessionStats (app w')) = failedScans (sessionStats (app w)))
       \<and> (st = Offboard \<longrightarrow>
            offboardCount (sessionStats (app w')) = offboardCount (sessionStats (app w)) + 1
          \<and> successfulScans (sessionStats (app w')) = successfulScans (sessionStats (app w)) + 1
          \<and> totalScanned (sessionStats (app w')) = totalScanned (sessionStats (app w)) + 1
          \<and> onboardCount (sessionStats (app w')) = onboardCount (sessionStats (app w))
          \<and> failedScans (sessionStats (app w')) = failedScans (sessionStats (app w)))"
proof -
  have pb: "fst (pb_updatePilgrimStatus (updateFault env) i st w) = Inr u"
    using ok by (simp add: pb_updatePilgrimStatus_def Let_def case_prod_beta split: sum.splits)
  have r: "r = Inr u"
    using run pb updatePilgrimStatus_fst [of env i st w] by simp
  have "app w' = app (snd (updatePilgrimStatus env i st w))"
    using run by simp
  then have a: "app w' = (app w)\<lparr> pilgrims := replaceAtId i u (pilgrims (app w)),
                                  sessionStats := countSuccess st (sessionStats (app w)) \<rparr>"
    using pb by (simp add: updatePilgrimStatus_app)
  show ?thesis
    using r by (simp add: a countSuccess_def Let_def)
qed

theorem persist_success_counts_witness:
  "fst (sdk_update (updateFault (calmEnv ''A1'')) (remote (freshWorld [amina])) ''p1'' Onboard)
     = Inr (amina\<lparr>status := Onboard\<rparr>)
   \<and> fst (updatePilgrimStatus (calmEnv ''A1'') ''p1'' Onboard (freshWorld [amina]))
     = Inr (amina\<lparr>status := Onboard\<rparr>)
   \<and> onboardCount (sessionStats (app (snd (updatePilgrimStatus (calmEnv ''A1'') ''p1'' Onboard
        (freshWorld [amina]))))) = 1
   \<and> successfulScans (sessionStats (app (snd (updatePilgrimStatus (calmEnv ''A1'') ''p1'' Onboard
        (freshWorld [amina]))))) = 1
   \<and> fst (sdk_update (updateFault (calmEnv ''A1'')) (remote (freshWorld [amina])) ''p1'' Offboard)
     = Inr amina
   \<and> fst (updatePilgrimStatus (calmEnv ''A1'') ''p1'' Offboard (freshWorld [amina])) = Inr amina
   \<and> offboardCount (sessionStats (app (snd (updatePilgrimStatus (calmEnv ''A1'') ''p1'' Offboard
        (freshWorld [amina]))))) = 1
   \<and> totalScanned (sessionStats (app (snd (updatePilgrimStatus (calmEnv ''A1'') ''p1'' Offboard
        (freshWorld [amina]))))) = 1"
proof -
  have a: "fst (sdk_update (updateFault (calmEnv ''A1'')) (remote (freshWorld [amina])) ''p1'' Onboard)
             = Inr (amina\<lparr>status := Onboard\<rparr>)"
    by (simp add: sdk_update_def calmEnv_def freshWorld_def amina_def)
  have b: "fst (sdk_update (updateFault (calmEnv ''A1'')) (remote (freshWorld [amina])) ''p1'' Offboard)
             = Inr amina"
    by (simp add: sdk_update_def calmEnv_def freshWorld_def amina_def)
  have ra: "updatePilgrimStatus (calmEnv ''A1'') ''p1'' Onboard (freshWorld [amina]) =
      (fst (updatePilgrimStatus (calmEnv ''A1'') ''p1'' Onboard (freshWorld [amina])),
       snd (updatePilgrimStatus (calmEnv ''A1'') ''p1'' Onboard (freshWorld [amina])))"
    by simp
  have rb: "updatePilgrimStatus (calmEnv ''A1'') ''p1'' Offboard (freshWorld [amina]) =
      (fst (updatePilgrimStatus (calmEnv ''A1'') ''p1'' Offboard (freshWorld [amina])),
       snd (updatePilgrimStatus (calmEnv ''A1'') ''p1'' Offboard (freshWorld [amina])))"
    by simp
  have z: "onboardCount (sessionStats (app (freshWorld [amina]))) = 0"
          "offboardCount (sessionStats (app (freshWorld [amina]))) = 0"
          "successfulScans (sessionStats (app (freshWorld [amina]))) = 0"
          "totalScanned (sessionStats (app (freshWorld [amina]))) = 0"
    by (simp_all add: freshWorld_def initialState_def)
  show ?thesis
    using a b z persist_success_counts [OF a ra] persist_success_counts [OF b rb] by simp
qed

text \<open>
  C6. When the persist fails with a client error \<open>se\<close> (network or server), the store's
  \<^verbatim>\<open>updatePilgrimStatus\<close> rethrows the normalized error, adds one to \<open>failedScans\<close> and
  to \<open>totalScanned\<close>, puts the error's message into \<open>error\<close> (the client's own message
  whenever it has one), and leaves the in-memory pilgrim list and the selected pilgrim as they
  were.
\<close>

theorem persist_failure_effects:
  assumes "fst (sdk_update (updateFault env) (remote w) i st) = Inl se"
      and "updatePilgrimStatus env i st w = (r, w')"
  shows "r = Inl (handleError se)
       \<and> failedScans (sessionStats (app w')) = failedScans (sessionStats (app w)) + 1
       \<and> totalScanned (sessionStats (app w')) = totalScanned (sessionStats (app w)) + 1
       \<and> successfulScans (sessionStats (app w')) = successfulScans (sessionStats (app w))
       \<and> onboardCount (sessionStats (app w')) = onboardCount (sessionStats (app w))
       \<and> offboardCount (sessionStats (app w')) = offboardCount (sessionStats (app w))
       \<and> error (app w') = Some (thrown_message (handleError se))
       \<and> (sdk_message se \<noteq> [] \<longrightarrow> error (app w') = Some (sdk_message se))
       \<and> pilgrims (app w') = pilgrims (app w)
       \<and> selectedPilgrim (app w') = selectedPilgrim (app w)"
proof -
  have pb: "fst (pb_updatePilgrimStatus (updateFault env) i st w) = Inl (handleError se)"
    using assms(1) by (simp add: pb_updatePilgrimStatus_def Let_def case_prod_beta split: sum.splits)
  have r: "r = Inl (handleError se)"
    using assms(2) pb updatePilgrimStatus_fst [of env i st w] by simp
  have ne: "thrown_message (handleError se) \<noteq> []"
    by (simp add: handleError_def orElse_def split: option.splits)
  have m: "sdk_message se \<noteq> [] \<Longrightarrow> thrown_message (handleError se) = sdk_message se"
    by (simp add: handleError_def orElse_def split: option.splits)
  have "app w' = app (snd (updatePilgrimStatus env i st w))"
    using assms(2) by simp
  then have a: "app w' = (app w)\<lparr> error := Some (thrown_message (handleError se)),
                          sessionStats := countFailure (sessionStats (app w)) \<rparr>"
    using pb ne by (simp add: updatePilgrimStatus_app orElse_def)
  show ?thesis
    using r m by (simp add: a countFailure_def)
qed

theorem persist_failure_effects_witness:
  "fst (sdk_update (Some serverDown) (remote (freshWorld [amina])) ''p1'' Onboard) = Inl serverDown
   \<and> error (app (snd (updatePilgrimStatus ((calmEnv ''A1'')\<lparr>updateFault := Some serverDown\<rparr>)
        ''p1'' Onboard (freshWorld [amina])))) = Some ''Something went wrong.''
   \<and> failedScans (sessionStats (app (snd (updatePilgrimStatus
        ((calmEnv ''A1'')\<lparr>updateFault := Some serverDown\<rparr>) ''p1'' Onboard (freshWorld [amina]))))) = 1"
proof -
  have a: "fst (sdk_update (updateFault ((calmEnv ''A1'')\<lparr>updateFault := Some serverDown\<rparr>))
             (remote (freshWorld [amina])) ''p1'' Onboard) = Inl serverDown"
    by (simp add: sdk_update_def)
  have b: "updatePilgrimStatus ((calmEnv ''A1'')\<lparr>updateFault := Some serverDown\<rparr>) ''p1'' Onboard
             (freshWorld [amina])
           = (fst (updatePilgrimStatus ((calmEnv ''A1'')\<lparr>updateFault := Some serverDown\<rparr>) ''p1''
                Onboard (freshWorld [amina])),
              snd (updatePilgrimStatus ((calmEnv ''A1'')\<lparr>updateFault := Some serverDown\<rparr>) ''p1''
                Onboard (freshWorld [amina])))"
    by simp
  have z: "failedScans (sessionStats (app (freshWorld [amina]))) = 0"
          "sdk_message serverDown = ''Something went wrong.''"
    by (simp_all add: scenario_defs sdk_message_def)
  show ?thesis
    using a z persist_failure_effects [OF a b]
    by (simp add: handleError_def serverDown_def sdk_message_def orElse_def)
qed

section \<open>Cancelling and ending\<close>

text \<open>
  C7. While a scan is in flight (after the first stretch of \<^verbatim>\<open>startScanning\<close>), the
  store's \<^verbatim>\<open>endSession\<close> returns to idle, clears \<open>isScanning\<close> and stamps
  \<open>endTime\<close>, but makes no call to the reader: the pending request is not cancelled.
  The store's \<^verbatim>\<open>stopScanning\<close> in the same state does issue the cancel.
\<close>

theorem endSession_leaves_reader_engaged:
  "isScanning (nfc (app (startScanning_begin Onboard boardingRun)))
   \<and> \<not> isScanning (nfc (app (endSession 2000 (startScanning_begin Onboard boardingRun))))
   \<and> scanningMode (app (endSession 2000 (startScanning_begin Onboard boardingRun))) = Idle
   \<and> endTime (sessionStats (app (endSession 2000 (startScanning_begin Onboard boardingRun)))) = Some 2000
   \<and> calls (endSession 2000 (startScanning_begin Onboard boardingRun)) =
       calls (startScanning_begin Onboard boardingRun)
   \<and> NfcCancelTechnologyRequest \<notin> set (calls (endSession 2000 (startScanning_begin Onboard boardingRun)))
   \<and> calls (stopScanning (readerReads ''A1'') (startScanning_begin Onboard boardingRun)) =
       calls (startScanning_begin Onboard boardingRun) @ [NfcCancelTechnologyRequest]"
  by (simp add: boardingRun_def startSession_def startScanning_begin_def endSession_def
      stopScanning_def nfc_stopScanning_def logCall_def readerReads_def freshWorld_def
      initialState_def Let_def)

section \<open>Timeouts\<close>

text \<open>
  C8. When the reader is present, initialized (or initializes without fault) and enabled, and
  the adapter's timer fires before a tag is found, the adapter returns
  \<^verbatim>\<open>{success: false, error: 'SCAN_TIMEOUT'}\<close> with no card identifier; a session in mode
  offboard that started from zero ends the cycle with \<open>failedScans = 1\<close> and
  \<open>totalScanned = 1\<close>, and no Record Store operation is called.
\<close>

theorem scan_timeout_offboard:
  assumes present: "nfcManagerPresent (hw env)"
      and init: "isInitialized w \<or> (isSupported_r (hw env) = Inr True \<and> start_r (hw env) = None)"
      and enabled: "isEnabled_r (hw env) = Inr True"
      and timeout: "requestTechnology_r (hw env) = TimerFired"
      and zero: "failedScans (sessionStats (app w)) = 0" "totalScanned (sessionStats (app w)) = 0"
  shows "fst (nfc_startScanning (hw env) (now env) w) =
           \<lparr> success = False, cardId = None, scanError = Some ''SCAN_TIMEOUT'', timestamp = now env \<rparr>
       \<and> lastScanResult (nfc (app (startScanning env Offboard w))) =
           Some \<lparr> success = False, cardId = None, scanError = Some ''SCAN_TIMEOUT'',
                  timestamp = now env \<rparr>
       \<and> failedScans (sessionStats (app (startScanning env Offboard w))) = 1
       \<and> totalScanned (sessionStats (app (startScanning env Offboard w))) = 1
       \<and> successfulScans (sessionStats (app (startScanning env Offboard w))) =
           successfulScans (sessionStats (app w))
       \<and> filter isRecordStoreCall (calls (startScanning env Offboard w)) =
           filter isRecordStoreCall (calls w)
       \<and> remote (startScanning env Offboard w) = remote w"
proof -
  have att: "fst (scanAttempt (hw env) w) = Inl (newError ''SCAN_TIMEOUT'')"
    using present init enabled timeout by (rule scanAttempt_timeout)
  have res: "fst (nfc_startScanning (hw env) (now env) w) =
           \<lparr> success = False, cardId = None, scanError = Some ''SCAN_TIMEOUT'', timestamp = now env \<rparr>"
    by (simp add: nfc_startScanning_fst att)
  show ?thesis
    using res zero
    by (simp add: startScanning_no_card [OF att] countFailure_def)
qed

theorem scan_timeout_offboard_witness:
  "nfcManagerPresent readerTimesOut
   \<and> isSupported_r readerTimesOut = Inr True \<and> start_r readerTimesOut = None
   \<and> isEnabled_r readerTimesOut = Inr True
   \<and> requestTechnology_r readerTimesOut = TimerFired
   \<and> failedScans (sessionStats (app alightingRun)) = 0
   \<and> totalScanned (sessionStats (app alightingRun)) = 0
   \<and> failedScans (sessionStats (app (startScanning ((calmEnv [])\<lparr>hw := readerTimesOut\<rparr>) Offboard
        alightingRun))) = 1
   \<and> totalScanned (sessionStats (app (startScanning ((calmEnv [])\<lparr>hw := readerTimesOut\<rparr>) Offboard
        alightingRun))) = 1
   \<and> filter isRecordStoreCall (calls (startScanning ((calmEnv [])\<lparr>hw := readerTimesOut\<rparr>) Offboard
        alightingRun)) = []"
proof -
  let ?env = "(calmEnv [])\<lparr>hw := readerTimesOut\<rparr>"
  have h1: "nfcManagerPresent (hw ?env)"
    by (simp add: readerTimesOut_def readerReads_def)
  have h2: "isInitialized alightingRun \<or> (isSupported_r (hw ?env) = Inr True \<and> start_r (hw ?env) = None)"
    by (simp add: readerTimesOut_def readerReads_def)
  have h3: "isEnabled_r (hw ?env) = Inr True"
    by (simp add: readerTimesOut_def readerReads_def)
  have h4: "requestTechnology_r (hw ?env) = TimerFired"
    by (simp add: readerTimesOut_def readerReads_def)
  have h5: "failedScans (sessionStats (app alightingRun)) = 0"
    by (simp add: alightingRun_def startSession_def)
  have h6: "totalScanned (sessionStats (app alightingRun)) = 0"
    by (simp add: alightingRun_def startSession_def)
  have c: "calls alightingRun = []"
    by (simp add: alightingRun_def startSession_def freshWorld_def)
  show ?thesis
    using h1 h2 h3 h4 h5 h6 c scan_timeout_offboard [OF h1 h2 h3 h4 h5 h6]
    by (simp add: readerTimesOut_def readerReads_def)
qed

section \<open>The idle mode\<close>

text \<open>
  C9. A session that has ended is in mode idle. \<^verbatim>\<open>processScan\<close> on it does not fail:
  it passes both checks, calls the persist operation with the target status \<^verbatim>\<open>'idle'\<close>,
  and counts a successful scan and an offboarding. The store reaches this by itself when
  \<^verbatim>\<open>endSession\<close> runs while a scan of \<^verbatim>\<open>startScanning\<close> is in flight and the tag is
  read afterwards.
\<close>

theorem idle_mode_reaches_persist:
  "scanningMode (app (endSession 2000 alightingRun)) = Idle
   \<and> fst (processScan (calmEnv ''A1'') ''A1'' (endSession 2000 alightingRun)) = Inr ()
   \<and> calls (snd (processScan (calmEnv ''A1'') ''A1'' (endSession 2000 alightingRun))) =
       [PbGetFirstListItem (cardFilter ''A1''), PbUpdate ''p1'' Idle]
   \<and> remote (snd (processScan (calmEnv ''A1'') ''A1'' (endSession 2000 alightingRun))) =
       [amina\<lparr>status := Idle\<rparr>, bilal]
   \<and> successfulScans (sessionStats (app (snd (processScan (calmEnv ''A1'') ''A1''
        (endSession 2000 alightingRun))))) = 1
   \<and> offboardCount (sessionStats (app (snd (processScan (calmEnv ''A1'') ''A1''
        (endSession 2000 alightingRun))))) = 1
   \<and> filter isPersistCall (calls (startScanning_resume (calmEnv ''A1'')
        (endSession 2000 (startScanning_begin Onboard boardingRun)))) = [PbUpdate ''p1'' Idle]
   \<and> remote (startScanning_resume (calmEnv ''A1'')
        (endSession 2000 (startScanning_begin Onboard boardingRun))) = [amina\<lparr>status := Idle\<rparr>, bilal]"
  by (simp add: alightingRun_def boardingRun_def model_defs scenario_defs Let_def)

section \<open>Cancelled scans\<close>

text \<open>
  C10, as stated, fails: an error whose message contains \<^verbatim>\<open>cancelled\<close> but also
  \<^verbatim>\<open>NFC_DISABLED\<close> is reported as \<^verbatim>\<open>NFC_DISABLED\<close>, since that test comes first.
\<close>

theorem cancelled_scan_not_always_timeout:
  "str_includes (errorMessage cancelledWhileDisabled) ''cancelled''
   \<and> fst (nfc_startScanning (readerRejects cancelledWhileDisabled) 1000 (freshWorld [])) =
       \<lparr> success = False, cardId = None, scanError = Some ''NFC_DISABLED'', timestamp = 1000 \<rparr>
   \<and> scanError (fst (nfc_startScanning (readerRejects cancelledWhileDisabled) 1000 (freshWorld [])))
       \<noteq> Some ''SCAN_TIMEOUT''"
  by (simp add: cancelledWhileDisabled_def readerRejects_def readerReads_def freshWorld_def
      nfc_startScanning_def scanAttempt_def nfc_initialize_def nfc_isEnabled_def
      nfc_stopScanning_def logCall_def mapErrorToMessage_def errorMessage_def newError_def
      orElse_def Let_def)

text \<open>
  C10 (amended). When the scan attempt ends in an error whose message contains
  \<^verbatim>\<open>cancelled\<close> or \<^verbatim>\<open>canceled\<close> and none of \<^verbatim>\<open>NFC_NOT_SUPPORTED\<close>,
  \<^verbatim>\<open>NFC_DISABLED\<close>, \<^verbatim>\<open>INVALID_CARD\<close>, the adapter's \<^verbatim>\<open>startScanning\<close>
  returns the failure result with error kind \<^verbatim>\<open>SCAN_TIMEOUT\<close>, the very result a
  timeout gives; the store records it and counts one failed scan.
\<close>

theorem cancelled_scan_reports_timeout:
  assumes att: "fst (scanAttempt (hw env) w) = Inl e"
      and cancelled: "str_includes (errorMessage e) ''cancelled'' \<or> str_includes (errorMessage e) ''canceled''"
      and n1: "\<not> str_includes (errorMessage e) ''NFC_NOT_SUPPORTED''"
      and n2: "\<not> str_includes (errorMessage e) ''NFC_DISABLED''"
      and n3: "\<not> str_includes (errorMessage e) ''INVALID_CARD''"
  shows "fst (nfc_startScanning (hw env) t w) =
           \<lparr> success = False, cardId = None, scanError = Some ''SCAN_TIMEOUT'', timestamp = t \<rparr>
       \<and> fst (nfc_startScanning (hw env) t w) =
           fst (nfc_startScanning ((hw env)\<lparr> nfcManagerPresent := True, isSupported_r := Inr True,
                 start_r := None, isEnabled_r := Inr True, requestTechnology_r := TimerFired \<rparr>) t w)
       \<and> lastScanResult (nfc (app (startScanning env mode w))) =
           Some \<lparr> success = False, cardId = None, scanError = Some ''SCAN_TIMEOUT'',
                  timestamp = now env \<rparr>
       \<and> error (app (startScanning env mode w)) = Some ''SCAN_TIMEOUT''
       \<and> failedScans (sessionStats (app (startScanning env mode w))) =
           failedScans (sessionStats (app w)) + 1
       \<and> totalScanned (sessionStats (app (startScanning env mode w))) =
           totalScanned (sessionStats (app w)) + 1"
proof -
  have m: "mapErrorToMessage e = ''SCAN_TIMEOUT''"
    using cancelled n1 n2 n3 by (auto simp: mapErrorToMessage_def Let_def)
  have res: "fst (nfc_startScanning (hw env) t w) =
           \<lparr> success = False, cardId = None, scanError = Some ''SCAN_TIMEOUT'', timestamp = t \<rparr>"
    by (simp add: nfc_startScanning_fst att m)
  have "fst (scanAttempt ((hw env)\<lparr> nfcManagerPresent := True, isSupported_r := Inr True,
                 start_r := None, isEnabled_r := Inr True, requestTechnology_r := TimerFired \<rparr>) w)
          = Inl (newError ''SCAN_TIMEOUT'')"
    by (rule scanAttempt_timeout) simp_all
  then have tmo: "fst (nfc_startScanning ((hw env)\<lparr> nfcManagerPresent := True, isSupported_r := Inr True,
                 start_r := None, isEnabled_r := Inr True, requestTechnology_r := TimerFired \<rparr>) t w) =
           \<lparr> success = False, cardId = None, scanError = Some ''SCAN_TIMEOUT'', timestamp = t \<rparr>"
    by (simp add: nfc_startScanning_fst)
  show ?thesis
    using res tmo
    by (simp add: startScanning_no_card [OF att] m countFailure_def orElse_def)
qed

theorem cancelled_scan_reports_timeout_witness:
  "fst (scanAttempt (readerRejects userCancelled) (freshWorld [])) = Inl userCancelled
   \<and> str_includes (errorMessage userCancelled) ''cancelled''
   \<and> \<not> str_includes (errorMessage userCancelled) ''NFC_NOT_SUPPORTED''
   \<and> \<not> str_includes (errorMessage userCancelled) ''NFC_DISABLED''
   \<and> \<not> str_includes (errorMessage userCancelled) ''INVALID_CARD''
   \<and> fst (nfc_startScanning (readerRejects userCancelled) 7 (freshWorld [])) =
       \<lparr> success = False, cardId = None, scanError = Some ''SCAN_TIMEOUT'', timestamp = 7 \<rparr>
   \<and> failedScans (sessionStats (app (startScanning
        ((calmEnv [])\<lparr>hw := readerRejects userCancelled\<rparr>) Onboard (freshWorld [])))) = 1"
proof -
  let ?env = "(calmEnv [])\<lparr>hw := readerRejects userCancelled\<rparr>"
  have msg: "errorMessage userCancelled = ''The request was cancelled by the user''"
    by (simp add: userCancelled_def errorMessage_def newError_def orElse_def)
  have h1: "fst (scanAttempt (hw ?env) (freshWorld [])) = Inl userCancelled"
    by (simp add: readerRejects_def readerReads_def freshWorld_def scanAttempt_def
        nfc_initialize_def nfc_isEnabled_def logCall_def Let_def)
  have c: "str_includes (errorMessage userCancelled) ''cancelled''"
    by (simp add: msg)
  have h2: "str_includes (errorMessage userCancelled) ''cancelled''
            \<or> str_includes (errorMessage userCancelled) ''canceled''"
    using c by simp
  have h3: "\<not> str_includes (errorMessage userCancelled) ''NFC_NOT_SUPPORTED''"
    by (simp add: msg)
  have h4: "\<not> str_includes (errorMessage userCancelled) ''NFC_DISABLED''"
    by (simp add: msg)
  have h5: "\<not> str_includes (errorMessage userCancelled) ''INVALID_CARD''"
    by (simp add: msg)
  have z: "failedScans (sessionStats (app (freshWorld []))) = 0"
    by (simp add: freshWorld_def initialState_def)
  have hw: "hw ?env = readerRejects userCancelled"
    by simp
  show ?thesis
    using h1 c h3 h4 h5 z
      cancelled_scan_reports_timeout [OF h1 h2 h3 h4 h5, of 7 Onboard]
    by (simp add: hw)
qed

end
